theory Spec2Isabelle
  imports Complex_Main
begin

section \<open>C++ \<open>double\<close> values\<close>

text \<open>
  The inverse-kinematics plugin computes on C++ \<open>double\<close>. A \<open>double\<close> is modelled as a
  real number, one of the two infinities, or NaN. Rounding, overflow and the sign of zero
  are not modelled (a zero divisor is read as \<open>+0\<close>); what is modelled is what the plugin's
  control flow depends on: NaN compares false with everything, \<open>acos\<close> outside \<open>[-1, 1]\<close>
  and \<open>0/0\<close> are NaN, and \<open>isnan\<close>.
\<close>

datatype double = Fin real | PInf | MInf | NaN

fun isnan :: "double \<Rightarrow> bool" where
  "isnan NaN = True"
| "isnan _ = False"

text \<open>The C++ comparison \<open>a < b\<close>.\<close>

fun dlt :: "double \<Rightarrow> double \<Rightarrow> bool" where
  "dlt NaN _ = False"
| "dlt _ NaN = False"
| "dlt (Fin a) (Fin b) = (a < b)"
| "dlt (Fin _) PInf = True"
| "dlt (Fin _) MInf = False"
| "dlt PInf _ = False"
| "dlt MInf MInf = False"
| "dlt MInf _ = True"

text \<open>The C++ comparisons \<open>a > b\<close> and \<open>a <= b\<close>.\<close>

definition dgt :: "double \<Rightarrow> double \<Rightarrow> bool" where
  "dgt a b = dlt b a"

definition dle :: "double \<Rightarrow> double \<Rightarrow> bool" where
  "dle a b = (\<not> isnan a \<and> \<not> isnan b \<and> \<not> dlt b a)"

fun dneg :: "double \<Rightarrow> double" where
  "dneg (Fin a) = Fin (- a)"
| "dneg PInf = MInf"
| "dneg MInf = PInf"
| "dneg NaN = NaN"

fun dadd :: "double \<Rightarrow> double \<Rightarrow> double" where
  "dadd NaN _ = NaN"
| "dadd _ NaN = NaN"
| "dadd (Fin a) (Fin b) = Fin (a + b)"
| "dadd PInf MInf = NaN"
| "dadd MInf PInf = NaN"
| "dadd PInf _ = PInf"
| "dadd MInf _ = MInf"
| "dadd (Fin _) b = b"

definition dsub :: "double \<Rightarrow> double \<Rightarrow> double" where
  "dsub a b = dadd a (dneg b)"

text \<open>The sign of a value, as \<open>-1\<close>, \<open>0\<close> or \<open>1\<close> (\<open>0\<close> for zero and for NaN).\<close>

fun dsign :: "double \<Rightarrow> real" where
  "dsign (Fin a) = sgn a"
| "dsign PInf = 1"
| "dsign MInf = - 1"
| "dsign NaN = 0"

definition signed_inf :: "real \<Rightarrow> double" where
  "signed_inf s = (if s = 0 then NaN else if 0 < s then PInf else MInf)"

fun dmul :: "double \<Rightarrow> double \<Rightarrow> double" where
  "dmul NaN _ = NaN"
| "dmul _ NaN = NaN"
| "dmul (Fin a) (Fin b) = Fin (a * b)"
| "dmul a b = signed_inf (dsign a * dsign b)"

fun ddiv :: "double \<Rightarrow> double \<Rightarrow> double" where
  "ddiv NaN _ = NaN"
| "ddiv _ NaN = NaN"
| "ddiv (Fin a) (Fin b) = (if b = 0 then signed_inf (sgn a) else Fin (a / b))"
| "ddiv (Fin _) _ = Fin 0"
| "ddiv a (Fin b) = signed_inf (dsign a * (if b < 0 then - 1 else 1))"
| "ddiv _ _ = NaN"

fun dsqrt :: "double \<Rightarrow> double" where
  "dsqrt (Fin a) = (if a < 0 then NaN else Fin (sqrt a))"
| "dsqrt PInf = PInf"
| "dsqrt _ = NaN"

text \<open>\<open>acos\<close> of the C library: a domain error (NaN) outside \<open>[-1, 1]\<close>.\<close>

fun dacos :: "double \<Rightarrow> double" where
  "dacos (Fin a) = (if - 1 \<le> a \<and> a \<le> 1 then Fin (arccos a) else NaN)"
| "dacos _ = NaN"

text \<open>\<open>atan2 y x\<close> on reals, with \<open>atan2 0 0 = 0\<close> as the C library has it.\<close>

definition atan2_real :: "real \<Rightarrow> real \<Rightarrow> real" where
  "atan2_real y x =
     (if 0 < x then arctan (y / x)
      else if x < 0 then (if 0 \<le> y then arctan (y / x) + pi else arctan (y / x) - pi)
      else if 0 < y then pi / 2
      else if y < 0 then - (pi / 2)
      else 0)"

fun datan2 :: "double \<Rightarrow> double \<Rightarrow> double" where
  "datan2 NaN _ = NaN"
| "datan2 _ NaN = NaN"
| "datan2 (Fin y) (Fin x) = Fin (atan2_real y x)"
| "datan2 (Fin y) PInf = Fin 0"
| "datan2 (Fin y) MInf = Fin (if y < 0 then - pi else pi)"
| "datan2 PInf (Fin _) = Fin (pi / 2)"
| "datan2 MInf (Fin _) = Fin (- (pi / 2))"
| "datan2 PInf PInf = Fin (pi / 4)"
| "datan2 PInf MInf = Fin (3 * pi / 4)"
| "datan2 MInf PInf = Fin (- (pi / 4))"
| "datan2 MInf MInf = Fin (- (3 * pi / 4))"

definition M_PI :: double where
  "M_PI = Fin pi"

text \<open>
  \<open>clamp(v, lo, hi)\<close> of the C++ standard library: \<open>(v < lo) ? lo : (hi < v) ? hi : v\<close>.
  A NaN \<open>v\<close> fails both comparisons and is returned as it is.
\<close>

definition clamp :: "double \<Rightarrow> double \<Rightarrow> double \<Rightarrow> double" where
  "clamp v lo hi = (if dlt v lo then lo else if dlt hi v then hi else v)"

text \<open>A value lies in the closed interval \<open>[lo, hi]\<close>.\<close>

definition in_limits :: "double \<Rightarrow> double \<Rightarrow> double \<Rightarrow> bool" where
  "in_limits v lo hi = (dle lo v \<and> dle v hi)"

section \<open>Static helpers of the plugin\<close>

text \<open>\<open>IKPlugin::getAngle(x, y)\<close> returns \<open>atan2(y, x)\<close>.\<close>

definition getAngle :: "double \<Rightarrow> double \<Rightarrow> double" where
  "getAngle x y = datan2 y x"

text \<open>\<open>IKPlugin::lawOfCosines(a, b, c)\<close> returns \<open>acos((a * a + b * b - c * c) / (2 * a * b))\<close>.\<close>

definition lawOfCosines :: "double \<Rightarrow> double \<Rightarrow> double \<Rightarrow> double" where
  "lawOfCosines a b c =
     dacos (ddiv (dsub (dadd (dmul a a) (dmul b b)) (dmul c c)) (dmul (dmul (Fin 2) a) b))"

section \<open>The joint chain and the plugin\<close>

text \<open>
  Joints and links are objects of the host framework, held by pointer and compared by
  pointer identity; a pointer is modelled as a natural number. \<open>JointModel\<close> holds what the
  plugin reads through a joint pointer: the joint type, the first entry of
  \<open>getVariableBoundsMsg()\<close>, the mimic relation and the two links the joint connects.
\<close>

type_synonym JointRef = nat

type_synonym LinkRef = nat

datatype JointType = REVOLUTE | PRISMATIC | FIXED

record JointLimits =
  min_position :: double
  max_position :: double

record JointModel =
  getType :: JointType
  getVariableBounds :: JointLimits
  getMimic :: "JointRef option"
  getMimicFactor :: double
  getMimicOffset :: double
  getMimicRequests :: "JointRef list"
  getParentLinkModel :: LinkRef
  getChildLinkModel :: LinkRef

datatype Vector3d = Vector3d (vec_x: double) (vec_y: double) (vec_z: double)

definition vec_sub :: "Vector3d \<Rightarrow> Vector3d \<Rightarrow> Vector3d" where
  "vec_sub a b =
     Vector3d (dsub (vec_x a) (vec_x b)) (dsub (vec_y a) (vec_y b)) (dsub (vec_z a) (vec_z b))"

text \<open>\<open>Vector3d::norm()\<close>: the square root of the sum of the squared components.\<close>

definition vec_norm :: "Vector3d \<Rightarrow> double" where
  "vec_norm a =
     dsqrt (dadd (dadd (dmul (vec_x a) (vec_x a)) (dmul (vec_y a) (vec_y a)))
       (dmul (vec_z a) (vec_z a)))"

text \<open>A target pose; the solver reads its position only.\<close>

datatype Pose = Pose (position: Vector3d)

datatype MoveItErrorCodes = UNSET | SUCCESS | NO_IK_SOLUTION

text \<open>
  Undefined behaviour of the C++ code is a value of the model: a vector indexed at or
  beyond its size.
\<close>

datatype error = OutOfBounds

text \<open>
  The repository holds two revisions of \<open>ik.cpp\<close> and its successor
  \<open>inverseKinematicsPlugin.cpp\<close>. The solver modelled here is the later revision of
  \<open>ik.cpp\<close>: the one whose \<open>initialize()\<close> caches the mount, shoulder, elbow and wrist
  joints and whose \<open>searchPositionIK\<close> has the reach envelope. \<open>validateSeedState\<close>,
  \<open>validateTarget\<close>, \<open>getJoint\<close>, \<open>getLinkLength\<close>, \<open>getAngle\<close>, \<open>lawOfCosines\<close>,
  \<open>setJointMinState\<close> and \<open>setJointMaxState\<close> are the same text in both revisions, and so
  are the first statements of \<open>searchPositionIK\<close>, up to \<open>solution = ik_seed_state\<close>.

  The plugin instance keeps the names of its fields. What it reads from the host
  framework and from its header is a field too:
  \<^item> \<open>jointModel\<close> dereferences a joint pointer;
  \<^item> \<open>getGlobalLinkTransform\<close> is the translation of
    \<open>m_pState->getGlobalLinkTransform(link)\<close>; no function of this revision changes
    \<open>m_pState\<close> after \<open>setToDefaultValues()\<close>, so it is the zero pose;
  \<^item> \<open>computeVariablePositions\<close> is the framework's map from the transform
    \<open>AngleAxisd(angle, axis)\<close> of a joint to its position value;
  \<^item> \<open>MIN_vec\<close> and \<open>MAX_vec\<close> are the constants \<open>MIN\<close> and \<open>MAX\<close> of the header
    \<open>ik.h\<close>; the header is not among the source files, and their values are left open.
\<close>

record IKPlugin =
  m_joints :: "JointRef list"
  tip_frames :: "LinkRef list"
  m_pTipLink :: LinkRef
  m_pMountJoint :: JointRef
  m_pShoulderJoint :: JointRef
  m_pElbowJoint :: JointRef
  m_pWristJoint :: JointRef
  m_upperArm :: Vector3d
  m_forearm :: Vector3d
  jointModel :: "JointRef \<Rightarrow> JointModel"
  getGlobalLinkTransform :: "LinkRef \<Rightarrow> Vector3d"
  computeVariablePositions :: "JointRef \<Rightarrow> double \<Rightarrow> double"
  MIN_vec :: Vector3d
  MAX_vec :: Vector3d

text \<open>
  \<open>find(m_joints.begin(), m_joints.end(), pJoint) - m_joints.begin()\<close>: the position of the
  first occurrence, the size of the vector when there is none.
\<close>

fun find_index_of :: "JointRef list \<Rightarrow> JointRef \<Rightarrow> nat" where
  "find_index_of [] j = 0"
| "find_index_of (k # ks) j = (if k = j then 0 else Suc (find_index_of ks j))"

text \<open>\<open>states[index] = v\<close> on a \<open>std::vector\<close>: undefined at or beyond the size.\<close>

definition store :: "double list \<Rightarrow> nat \<Rightarrow> double \<Rightarrow> error + double list" where
  "store states index v =
     (if index < length states then Inr (states[index := v]) else Inl OutOfBounds)"

definition limits_of :: "IKPlugin \<Rightarrow> JointRef \<Rightarrow> JointLimits" where
  "limits_of p j = getVariableBounds (jointModel p j)"

text \<open>
  \<open>IKPlugin::getJoint(type, parent)\<close>: the first joint of \<open>m_joints\<close> of that type, whose
  parent link is the child link of \<open>parent\<close> when a parent is given; \<open>nullptr\<close> when there
  is none.
\<close>

fun getJoint_from :: "IKPlugin \<Rightarrow> JointRef list \<Rightarrow> JointType \<Rightarrow> JointRef option \<Rightarrow> JointRef option" where
  "getJoint_from p [] t parent = None"
| "getJoint_from p (joint # rest) t parent =
     (case parent of
        Some pa \<Rightarrow>
          (if getType (jointModel p joint) = t
              \<and> getParentLinkModel (jointModel p joint) = getChildLinkModel (jointModel p pa)
           then Some joint else getJoint_from p rest t parent)
      | None \<Rightarrow>
          (if getType (jointModel p joint) = t then Some joint
           else getJoint_from p rest t parent))"

definition getJoint :: "IKPlugin \<Rightarrow> JointType \<Rightarrow> JointRef option \<Rightarrow> JointRef option" where
  "getJoint p t parent = getJoint_from p (m_joints p) t parent"

text \<open>\<open>IKPlugin::getLinkLength(pBaseLink, pTipLink)\<close>.\<close>

definition getLinkLength :: "IKPlugin \<Rightarrow> LinkRef \<Rightarrow> LinkRef \<Rightarrow> Vector3d" where
  "getLinkLength p pBaseLink pTipLink =
     vec_sub (getGlobalLinkTransform p pTipLink) (getGlobalLinkTransform p pBaseLink)"

section \<open>Writing joint states\<close>

text \<open>
  The loop \<open>for (auto pMimicJoint : pMasterJoint->getMimicRequests())\<close> of
  \<open>setJointState\<close>: every joint that mimics the master, other than \<open>pJoint\<close> itself and
  other than a joint that is not in \<open>m_joints\<close>, is set to
  \<open>clamp(masterState * factor + offset, min_position, max_position)\<close> with its own factor,
  offset and limits. The loop is the same text in both versions of \<open>setJointState\<close> that
  have it.
\<close>

fun updateMimics :: "IKPlugin \<Rightarrow> JointRef \<Rightarrow> double \<Rightarrow> JointRef list \<Rightarrow> double list \<Rightarrow> error + double list" where
  "updateMimics p pJoint masterState [] states = Inr states"
| "updateMimics p pJoint masterState (pMimicJoint # rest) states =
     (if pMimicJoint = pJoint then updateMimics p pJoint masterState rest states
      else if find_index_of (m_joints p) pMimicJoint = length (m_joints p)
      then updateMimics p pJoint masterState rest states
      else
        (let mimicLimits = limits_of p pMimicJoint;
             mimicIndex = find_index_of (m_joints p) pMimicJoint;
             mimicState = dadd (dmul masterState (getMimicFactor (jointModel p pMimicJoint)))
                            (getMimicOffset (jointModel p pMimicJoint))
         in case store states mimicIndex
                   (clamp mimicState (min_position mimicLimits) (max_position mimicLimits)) of
              Inl e \<Rightarrow> Inl e
            | Inr states' \<Rightarrow> updateMimics p pJoint masterState rest states'))"

text \<open>
  \<open>IKPlugin::setJointState(pJoint, angle, states)\<close> of the later revision of \<open>ik.cpp\<close>. A NaN angle returns before anything is written. The master's slot receives
  the raw, unclamped \<open>masterStateRaw\<close> (the source marks the line \<open>// temp\<close>); the other
  mimics are computed from the clamped \<open>masterState\<close>. The returned transform feeds debug
  markers only and is left out.
\<close>

definition setJointState :: "IKPlugin \<Rightarrow> JointRef \<Rightarrow> double \<Rightarrow> double list \<Rightarrow> error + double list" where
  "setJointState p pJoint angle states =
     (if isnan angle then Inr states
      else
        (let limits = limits_of p pJoint;
             jointState = computeVariablePositions p pJoint angle;
             index = find_index_of (m_joints p) pJoint
         in case store states index
                   (clamp jointState (min_position limits) (max_position limits)) of
              Inl e \<Rightarrow> Inl e
            | Inr states1 \<Rightarrow>
                (case getMimic (jointModel p pJoint) of
                   None \<Rightarrow> Inr states1
                 | Some pMasterJoint \<Rightarrow>
                     (let masterLimits = limits_of p pMasterJoint;
                          masterStateRaw =
                            ddiv (dsub jointState (getMimicOffset (jointModel p pJoint)))
                              (getMimicFactor (jointModel p pJoint));
                          masterState =
                            clamp masterStateRaw (min_position masterLimits)
                              (max_position masterLimits);
                          masterIndex = find_index_of (m_joints p) pMasterJoint
                      in case store states1 masterIndex masterStateRaw of
                           Inl e \<Rightarrow> Inl e
                         | Inr states2 \<Rightarrow>
                             updateMimics p pJoint masterState
                               (getMimicRequests (jointModel p pMasterJoint)) states2))))"

text \<open>
  \<open>IKPlugin::setJointState\<close> of \<open>inverseKinematicsPlugin.cpp\<close>. The angle is the joint
  state; a NaN angle becomes \<open>max_position\<close>; the master's slot receives the clamped
  master state. The updates of \<open>m_pState\<close> are left out: nothing reads \<open>m_pState\<close> between
  the first call of \<open>setJointState\<close> in a solve and its return.
\<close>

definition setJointState_plugin :: "IKPlugin \<Rightarrow> JointRef \<Rightarrow> double \<Rightarrow> double list \<Rightarrow> error + double list" where
  "setJointState_plugin p pJoint angle states =
     (let limits = limits_of p pJoint;
          jointState =
            (if isnan angle then max_position limits
             else clamp angle (min_position limits) (max_position limits));
          index = find_index_of (m_joints p) pJoint
      in case store states index jointState of
           Inl e \<Rightarrow> Inl e
         | Inr states1 \<Rightarrow>
             (case getMimic (jointModel p pJoint) of
                None \<Rightarrow> Inr states1
              | Some pMasterJoint \<Rightarrow>
                  (let masterLimits = limits_of p pMasterJoint;
                       masterState =
                         clamp
                           (ddiv (dsub jointState (getMimicOffset (jointModel p pJoint)))
                              (getMimicFactor (jointModel p pJoint)))
                           (min_position masterLimits) (max_position masterLimits);
                       masterIndex = find_index_of (m_joints p) pMasterJoint
                   in case store states1 masterIndex masterState of
                        Inl e \<Rightarrow> Inl e
                      | Inr states2 \<Rightarrow>
                          updateMimics p pJoint masterState
                            (getMimicRequests (jointModel p pMasterJoint)) states2)))"

text \<open>\<open>IKPlugin::setJointMinState\<close> and \<open>IKPlugin::setJointMaxState\<close>: the limit is written
  into the joint's slot and nothing else is.\<close>

definition setJointMinState :: "IKPlugin \<Rightarrow> JointRef \<Rightarrow> double list \<Rightarrow> error + double list" where
  "setJointMinState p pJoint states =
     (let jointState = min_position (limits_of p pJoint);
          jointIndex = find_index_of (m_joints p) pJoint
      in store states jointIndex jointState)"

definition setJointMaxState :: "IKPlugin \<Rightarrow> JointRef \<Rightarrow> double list \<Rightarrow> error + double list" where
  "setJointMaxState p pJoint states =
     (let jointState = max_position (limits_of p pJoint);
          jointIndex = find_index_of (m_joints p) pJoint
      in store states jointIndex jointState)"

section \<open>Validation of a solve request\<close>

text \<open>
  \<open>IKPlugin::validateSeedState\<close>: false when the sizes differ; otherwise the logging loop
  reads \<open>m_joints[jointIndex]\<close> and \<open>ik_seed_state[jointIndex]\<close> for every
  \<open>jointIndex < ik_seed_state.size()\<close>, and the result is true.
\<close>

definition validateSeedState :: "IKPlugin \<Rightarrow> double list \<Rightarrow> error + bool" where
  "validateSeedState p ik_seed_state =
     (if length ik_seed_state \<noteq> length (m_joints p) then Inr False
      else if list_all (\<lambda>jointIndex. jointIndex < length (m_joints p)
                          \<and> jointIndex < length ik_seed_state)
                [0 ..< length ik_seed_state]
      then Inr True else Inl OutOfBounds)"

text \<open>\<open>IKPlugin::validateTarget\<close>.\<close>

definition validateTarget :: "IKPlugin \<Rightarrow> Pose list \<Rightarrow> bool" where
  "validateTarget p ik_poses =
     (\<not> (length ik_poses \<noteq> 1 \<or> length (tip_frames p) \<noteq> length ik_poses))"

section \<open>The solver\<close>

text \<open>The local values of \<open>searchPositionIK\<close> that the properties below speak about.\<close>

definition shoulderWorld :: "IKPlugin \<Rightarrow> Vector3d" where
  "shoulderWorld p =
     getGlobalLinkTransform p (getChildLinkModel (jointModel p (m_pShoulderJoint p)))"

definition targetLocal :: "IKPlugin \<Rightarrow> Pose list \<Rightarrow> Vector3d" where
  "targetLocal p ik_poses = vec_sub (position (last ik_poses)) (shoulderWorld p)"

definition shoulderToEffector :: "IKPlugin \<Rightarrow> Vector3d" where
  "shoulderToEffector p =
     getLinkLength p (getChildLinkModel (jointModel p (m_pShoulderJoint p))) (m_pTipLink p)"

definition wristToEffector :: "IKPlugin \<Rightarrow> Vector3d" where
  "wristToEffector p =
     getLinkLength p (getChildLinkModel (jointModel p (m_pWristJoint p))) (m_pTipLink p)"

definition reachableMaxNorm :: "IKPlugin \<Rightarrow> double" where
  "reachableMaxNorm p = dsub (vec_norm (MAX_vec p)) (vec_norm (wristToEffector p))"

definition reachableMinNorm :: "IKPlugin \<Rightarrow> double" where
  "reachableMinNorm p = dsub (vec_norm (MIN_vec p)) (vec_norm (wristToEffector p))"

type_synonym IKCallbackFn = "Pose \<Rightarrow> double list \<Rightarrow> MoveItErrorCodes \<Rightarrow> MoveItErrorCodes"

text \<open>
  \<open>IKPlugin::searchPositionIK\<close> (the overload on a vector of poses, which all others
  call) of the later revision of \<open>ik.cpp\<close>. \<open>solution\<close> and \<open>error_code\<close> are the
  caller's objects, passed by reference: the result holds the returned flag and their
  values at return. The callback receives the solution read-only and may change the
  error code. Inside the envelope the source computes an elbow angle and never writes
  it. The parameters the body never reads (timeout, consistency limits, options,
  context state), the unused locals and the debug markers are left out.
\<close>

definition searchPositionIK :: "IKPlugin \<Rightarrow> Pose list \<Rightarrow> double list \<Rightarrow> double list \<Rightarrow> IKCallbackFn option \<Rightarrow> MoveItErrorCodes \<Rightarrow> error + (bool \<times> MoveItErrorCodes \<times> double list)" where
  "searchPositionIK p ik_poses ik_seed_state solution solution_callback error_code =
     (case validateSeedState p ik_seed_state of
        Inl e \<Rightarrow> Inl e
      | Inr seedValid \<Rightarrow>
          if \<not> seedValid \<or> \<not> validateTarget p ik_poses
          then Inr (False, NO_IK_SOLUTION, solution)
          else
            (let mountAngle = getAngle (vec_x (targetLocal p ik_poses)) (vec_y (targetLocal p ik_poses));
                 mountOffset = getAngle (vec_x (shoulderToEffector p)) (vec_y (shoulderToEffector p))
             in case setJointState p (m_pMountJoint p) (dsub mountAngle mountOffset) ik_seed_state of
                  Inl e \<Rightarrow> Inl e
                | Inr solution1 \<Rightarrow>
                    (let targetNorm = vec_norm (targetLocal p ik_poses);
                         solved =
                           (if dgt targetNorm (reachableMaxNorm p)
                            then
                              (case setJointMaxState p (m_pShoulderJoint p) solution1 of
                                 Inl e \<Rightarrow> Inl e
                               | Inr solution2 \<Rightarrow> setJointMaxState p (m_pElbowJoint p) solution2)
                            else if dlt targetNorm (reachableMinNorm p)
                            then
                              (case setJointMinState p (m_pShoulderJoint p) solution1 of
                                 Inl e \<Rightarrow> Inl e
                               | Inr solution2 \<Rightarrow> setJointMinState p (m_pElbowJoint p) solution2)
                            else
                              (let upperArmNorm = vec_norm (m_upperArm p);
                                   forearmNorm = vec_norm (m_forearm p);
                                   reachableNorm =
                                     clamp targetNorm (reachableMinNorm p) (reachableMaxNorm p);
                                   shoulderAngle =
                                     dsub (lawOfCosines upperArmNorm forearmNorm reachableNorm)
                                       (ddiv M_PI (Fin 2))
                               in setJointState p (m_pShoulderJoint p) shoulderAngle solution1))
                     in case solved of
                          Inl e \<Rightarrow> Inl e
                        | Inr solution3 \<Rightarrow>
                            Inr (True,
                                 (case solution_callback of
                                    None \<Rightarrow> SUCCESS
                                  | Some callback \<Rightarrow> callback (hd ik_poses) solution3 SUCCESS),
                                 solution3))))"

section \<open>Vocabulary of the properties\<close>

text \<open>The slot of a joint in the joint-state vector.\<close>

definition slot :: "IKPlugin \<Rightarrow> JointRef \<Rightarrow> nat" where
  "slot p j = find_index_of (m_joints p) j"

text \<open>
  The slots that the mimic relation of a joint \<open>j\<close> ties to it: the slot of its master and
  the slots of the other joints of \<open>m_joints\<close> that mimic the same master.
\<close>

definition mimic_slots :: "IKPlugin \<Rightarrow> JointRef \<Rightarrow> nat set" where
  "mimic_slots p j =
     (case getMimic (jointModel p j) of
        None \<Rightarrow> {}
      | Some m \<Rightarrow>
          insert (slot p m)
            (slot p ` {s \<in> set (getMimicRequests (jointModel p m)). s \<noteq> j \<and> s \<in> set (m_joints p)}))"

text \<open>A joint is in \<open>m_joints\<close>, and so is its master when it has one.\<close>

definition resolved :: "IKPlugin \<Rightarrow> JointRef \<Rightarrow> bool" where
  "resolved p j =
     (j \<in> set (m_joints p)
      \<and> (case getMimic (jointModel p j) of None \<Rightarrow> True | Some m \<Rightarrow> m \<in> set (m_joints p)))"

text \<open>
  A request that passes \<open>validateSeedState\<close> and \<open>validateTarget\<close>: the seed has one entry
  per joint, and there is one pose for one tip frame.
\<close>

definition valid_request :: "IKPlugin \<Rightarrow> Pose list \<Rightarrow> double list \<Rightarrow> bool" where
  "valid_request p ik_poses ik_seed_state =
     (length ik_seed_state = length (m_joints p) \<and> length ik_poses = 1
      \<and> length (tip_frames p) = length ik_poses)"

text \<open>The angle that \<open>searchPositionIK\<close> passes to \<open>setJointState\<close> for the mount joint,
  written with \<open>atan2\<close> as the specification has it.\<close>

definition mount_angle_spec :: "IKPlugin \<Rightarrow> Pose list \<Rightarrow> double" where
  "mount_angle_spec p ik_poses =
     dsub (datan2 (vec_y (targetLocal p ik_poses)) (vec_x (targetLocal p ik_poses)))
       (datan2 (vec_y (shoulderToEffector p)) (vec_x (shoulderToEffector p)))"

text \<open>The angle that \<open>searchPositionIK\<close> passes to \<open>setJointState\<close> for the shoulder joint
  when the target is inside the reach envelope.\<close>

definition shoulder_angle :: "IKPlugin \<Rightarrow> Pose list \<Rightarrow> double" where
  "shoulder_angle p ik_poses =
     dsub (lawOfCosines (vec_norm (m_upperArm p)) (vec_norm (m_forearm p))
             (clamp (vec_norm (targetLocal p ik_poses)) (reachableMinNorm p) (reachableMaxNorm p)))
       (ddiv M_PI (Fin 2))"

text \<open>Every entry of a joint-state vector lies within the limits of the joint of its
  slot.\<close>

definition all_in_limits :: "IKPlugin \<Rightarrow> double list \<Rightarrow> bool" where
  "all_in_limits p states =
     (\<forall>i < length states.
        in_limits (states ! i) (min_position (limits_of p (m_joints p ! i)))
          (max_position (limits_of p (m_joints p ! i))))"

text \<open>The limits of every joint of \<open>m_joints\<close> are ordered, \<open>min_position \<le> max_position\<close>.\<close>

definition limits_ordered :: "IKPlugin \<Rightarrow> bool" where
  "limits_ordered p =
     (\<forall>j \<in> set (m_joints p). dle (min_position (limits_of p j)) (max_position (limits_of p j)))"




text \<open>The argument of \<open>acos\<close> in \<open>lawOfCosines\<close>.\<close>

definition cosineArgument :: "double \<Rightarrow> double \<Rightarrow> double \<Rightarrow> double" where
  "cosineArgument a b c =
     ddiv (dsub (dadd (dmul a a) (dmul b b)) (dmul c c)) (dmul (dmul (Fin 2) a) b)"

text \<open>The law of cosines as the specification words it: the argument is clamped into
  \<open>[-1, 1]\<close> before \<open>acos\<close>.\<close>

definition lawOfCosines_spec :: "double \<Rightarrow> double \<Rightarrow> double \<Rightarrow> double" where
  "lawOfCosines_spec a b c = dacos (clamp (cosineArgument a b c) (Fin (- 1)) (Fin 1))"

section \<open>Example chains\<close>

text \<open>
  A chain of four revolute joints, mount \<open>0\<close>, shoulder \<open>1\<close>, elbow \<open>2\<close> and wrist \<open>3\<close>,
  each with the limits \<open>[-1, 1]\<close> and no mimic relation. Joint \<open>j\<close> connects link \<open>j\<close> to
  link \<open>j + 1\<close>. The shoulder link is at the origin, the elbow link at \<open>(2, 0, 0)\<close>, the
  wrist link and the tip at \<open>(3, 0, 0)\<close>: the upper arm has length 2, the forearm
  length 1, and the reach envelope is \<open>[1, 3]\<close>.
\<close>

definition demo_joint :: "JointRef \<Rightarrow> JointModel" where
  "demo_joint j =
     \<lparr>getType = REVOLUTE,
      getVariableBounds = \<lparr>min_position = Fin (- 1), max_position = Fin 1\<rparr>,
      getMimic = None, getMimicFactor = Fin 1, getMimicOffset = Fin 0,
      getMimicRequests = [], getParentLinkModel = j, getChildLinkModel = Suc j\<rparr>"

definition demo_links :: "LinkRef \<Rightarrow> Vector3d" where
  "demo_links l =
     (if l = 2 then Vector3d (Fin 0) (Fin 0) (Fin 0)
      else if l = 3 then Vector3d (Fin 2) (Fin 0) (Fin 0)
      else Vector3d (Fin 3) (Fin 0) (Fin 0))"

definition demo_plugin :: IKPlugin where
  "demo_plugin =
     \<lparr>m_joints = [0, 1, 2, 3], tip_frames = [5], m_pTipLink = 5,
      m_pMountJoint = 0, m_pShoulderJoint = 1, m_pElbowJoint = 2, m_pWristJoint = 3,
      m_upperArm = Vector3d (Fin 2) (Fin 0) (Fin 0),
      m_forearm = Vector3d (Fin 1) (Fin 0) (Fin 0),
      jointModel = demo_joint, getGlobalLinkTransform = demo_links,
      computeVariablePositions = (\<lambda>j angle. angle),
      MIN_vec = Vector3d (Fin 1) (Fin 0) (Fin 0),
      MAX_vec = Vector3d (Fin 3) (Fin 0) (Fin 0)\<rparr>"

text \<open>A target far out of reach, and one closer to the shoulder than the envelope.\<close>

definition far_pose :: Pose where
  "far_pose = Pose (Vector3d (Fin 10) (Fin 0) (Fin 0))"

definition near_pose :: Pose where
  "near_pose = Pose (Vector3d (Fin (1 / 2)) (Fin 0) (Fin 0))"

text \<open>
  Three joints with a mimic relation: joints \<open>1\<close> and \<open>2\<close> mimic joint \<open>0\<close>, joint \<open>1\<close>
  with factor 1 and offset 0, joint \<open>2\<close> with factor 2 and offset 1. The master has the
  limits \<open>[-1, 1]\<close>, the two mimics \<open>[-10, 10]\<close>.
\<close>

definition mimic_joint :: "JointRef \<Rightarrow> JointModel" where
  "mimic_joint j =
     (if j = 0 then (demo_joint 0)\<lparr>getMimicRequests := [1, 2]\<rparr>
      else (demo_joint j)
             \<lparr>getVariableBounds := \<lparr>min_position = Fin (- 10), max_position = Fin 10\<rparr>,
              getMimic := Some 0,
              getMimicFactor := (if j = 2 then Fin 2 else Fin 1),
              getMimicOffset := (if j = 2 then Fin 1 else Fin 0)\<rparr>)"

definition mimic_plugin :: IKPlugin where
  "mimic_plugin = demo_plugin\<lparr>m_joints := [0, 1, 2], jointModel := mimic_joint\<rparr>"

text \<open>The four-joint chain again, with the elbow a mimic of the wrist (factor 1, offset 0).\<close>

definition elbow_mimic_joint :: "JointRef \<Rightarrow> JointModel" where
  "elbow_mimic_joint j =
     (if j = 2 then (demo_joint 2)\<lparr>getMimic := Some 3\<rparr>
      else if j = 3 then (demo_joint 3)\<lparr>getMimicRequests := [2]\<rparr>
      else demo_joint j)"

definition elbow_mimic_plugin :: IKPlugin where
  "elbow_mimic_plugin = demo_plugin\<lparr>jointModel := elbow_mimic_joint\<rparr>"

text \<open>The four-joint chain with the mount a mimic of the wrist (factor 1, offset 0).\<close>

definition mount_mimic_joint :: "JointRef \<Rightarrow> JointModel" where
  "mount_mimic_joint j =
     (if j = 0 then (demo_joint 0)\<lparr>getMimic := Some 3\<rparr>
      else if j = 3 then (demo_joint 3)\<lparr>getMimicRequests := [0]\<rparr>
      else demo_joint j)"

definition mount_mimic_plugin :: IKPlugin where
  "mount_mimic_plugin = demo_plugin\<lparr>jointModel := mount_mimic_joint\<rparr>"

section \<open>Facts about indices and the mimic loop\<close>

lemma find_index_of_le: "find_index_of js j \<le> length js"
  by (induction js) auto

lemma find_index_of_less: "j \<in> set js \<Longrightarrow> find_index_of js j < length js"
  by (induction js) auto

lemma find_index_of_nth: "j \<in> set js \<Longrightarrow> js ! find_index_of js j = j"
  by (induction js) auto

lemma find_index_of_absent: "j \<notin> set js \<Longrightarrow> find_index_of js j = length js"
  by (induction js) auto

lemma find_index_of_end_iff: "find_index_of js j = length js \<longleftrightarrow> j \<notin> set js"
  using find_index_of_less [of j js] find_index_of_absent [of j js] by auto

lemma find_index_of_inj: "j \<in> set js \<Longrightarrow> find_index_of js j = find_index_of js k \<Longrightarrow> j = k"
  by (induction js) (auto split: if_splits)

lemma slot_less: "j \<in> set (m_joints p) \<Longrightarrow> slot p j < length (m_joints p)"
  by (simp add: slot_def find_index_of_less)

lemma slot_inj: "j \<in> set (m_joints p) \<Longrightarrow> slot p j = slot p k \<Longrightarrow> j = k"
  unfolding slot_def by (rule find_index_of_inj)

lemma slot_nth: "j \<in> set (m_joints p) \<Longrightarrow> m_joints p ! slot p j = j"
  by (simp add: slot_def find_index_of_nth)

lemma store_Inr_iff: "store st i v = Inr st' \<longleftrightarrow> i < length st \<and> st' = st[i := v]"
  by (auto simp: store_def)

lemma store_ok: "i < length st \<Longrightarrow> store st i v = Inr (st[i := v])"
  by (simp add: store_def)

text \<open>One step of the loop, for a mimic that is written.\<close>

lemma updateMimics_Cons_write:
  "r \<noteq> j \<Longrightarrow> r \<in> set (m_joints p) \<Longrightarrow> length (m_joints p) \<le> length st \<Longrightarrow>
   updateMimics p j ms (r # reqs) st =
     updateMimics p j ms reqs
       (st[slot p r :=
             clamp (dadd (dmul ms (getMimicFactor (jointModel p r))) (getMimicOffset (jointModel p r)))
               (min_position (limits_of p r)) (max_position (limits_of p r))])"
  using find_index_of_less [of r "m_joints p"]
  by (simp add: Let_def store_ok slot_def)

lemma updateMimics_Cons_skip:
  "r = j \<or> r \<notin> set (m_joints p) \<Longrightarrow>
   updateMimics p j ms (r # reqs) st = updateMimics p j ms reqs st"
  by (auto simp: find_index_of_end_iff)

lemma updateMimics_ok:
  "length (m_joints p) \<le> length st \<Longrightarrow>
   \<exists>st'. updateMimics p j ms reqs st = Inr st' \<and> length st' = length st"
proof (induction reqs arbitrary: st)
  case Nil
  then show ?case by simp
next
  case (Cons r reqs)
  show ?case
  proof (cases "r = j \<or> r \<notin> set (m_joints p)")
    case True
    then show ?thesis using Cons by (simp only: updateMimics_Cons_skip)
  next
    case False
    then have "r \<noteq> j" and "r \<in> set (m_joints p)" by auto
    from updateMimics_Cons_write [OF this Cons.prems] show ?thesis
      using Cons.IH [of "st[slot p r := v]" for v] Cons.prems by simp
  qed
qed

lemma updateMimics_length:
  "updateMimics p j ms reqs st = Inr st' \<Longrightarrow> length st' = length st"
  by (induction reqs arbitrary: st)
     (auto simp: Let_def store_def split: if_splits sum.splits)

lemma updateMimics_frame:
  "updateMimics p j ms reqs st = Inr st' \<Longrightarrow>
   i \<notin> slot p ` {s \<in> set reqs. s \<noteq> j \<and> s \<in> set (m_joints p)} \<Longrightarrow>
   st' ! i = st ! i"
proof (induction reqs arbitrary: st)
  case Nil
  then show ?case by simp
next
  case (Cons r reqs)
  have rest: "i \<notin> slot p ` {s \<in> set reqs. s \<noteq> j \<and> s \<in> set (m_joints p)}"
    using Cons.prems(2) by auto
  show ?case
  proof (cases "r = j \<or> r \<notin> set (m_joints p)")
    case True
    then show ?thesis using Cons.IH [OF _ rest] Cons.prems(1)
      by (simp only: updateMimics_Cons_skip)
  next
    case False
    then have ne: "i \<noteq> slot p r" using Cons.prems(2) by auto
    from False Cons.prems(1) obtain st1 where
      st1: "store st (slot p r) (clamp (dadd (dmul ms (getMimicFactor (jointModel p r))) (getMimicOffset (jointModel p r)))
               (min_position (limits_of p r)) (max_position (limits_of p r))) = Inr st1"
      and run: "updateMimics p j ms reqs st1 = Inr st'"
      by (auto simp: Let_def slot_def find_index_of_end_iff split: sum.splits)
    from st1 ne have "st1 ! i = st ! i" by (auto simp: store_Inr_iff)
    with Cons.IH [OF run rest] show ?thesis by simp
  qed
qed

lemma updateMimics_value:
  "updateMimics p j ms reqs st = Inr st' \<Longrightarrow>
   s \<in> set reqs \<Longrightarrow> s \<noteq> j \<Longrightarrow> s \<in> set (m_joints p) \<Longrightarrow>
   st' ! slot p s =
     clamp (dadd (dmul ms (getMimicFactor (jointModel p s))) (getMimicOffset (jointModel p s)))
       (min_position (limits_of p s)) (max_position (limits_of p s))"
proof (induction reqs arbitrary: st)
  case Nil
  then show ?case by simp
next
  case (Cons r reqs)
  show ?case
  proof (cases "s \<in> set reqs")
    case True
    from Cons.prems(1) obtain st1 where "updateMimics p j ms reqs st1 = Inr st'"
      by (auto simp: Let_def split: if_splits sum.splits)
    from Cons.IH [OF this True Cons.prems(3,4)] show ?thesis .
  next
    case False
    then have rs: "r = s" using Cons.prems(2) by simp
    let ?v = "clamp (dadd (dmul ms (getMimicFactor (jointModel p s))) (getMimicOffset (jointModel p s)))
               (min_position (limits_of p s)) (max_position (limits_of p s))"
    from rs Cons.prems obtain st1 where
      st1: "store st (slot p s) ?v = Inr st1"
      and run: "updateMimics p j ms reqs st1 = Inr st'"
      by (auto simp: Let_def slot_def find_index_of_end_iff split: sum.splits)
    have "slot p s \<notin> slot p ` {t \<in> set reqs. t \<noteq> j \<and> t \<in> set (m_joints p)}"
      using False slot_inj [OF Cons.prems(4)] by auto
    from updateMimics_frame [OF run this] st1 show ?thesis
      by (auto simp: store_Inr_iff)
  qed
qed

lemma getJoint_from_member: "getJoint_from p js t parent = Some j \<Longrightarrow> j \<in> set js"
  by (induction js) (auto split: option.splits if_splits)

lemma getJoint_member: "getJoint p t parent = Some j \<Longrightarrow> j \<in> set (m_joints p)"
  unfolding getJoint_def by (rule getJoint_from_member)

lemma dacos_nan_iff: "isnan (dacos x) \<longleftrightarrow> \<not> in_limits x (Fin (- 1)) (Fin 1)"
  by (cases x) (auto simp: in_limits_def dle_def)

lemma validateSeedState_eq:
  "validateSeedState p st = Inr (length st = length (m_joints p))"
  by (simp add: validateSeedState_def list_all_iff)

lemma dmul_commute: "dmul a b = dmul b a"
  by (cases a; cases b) (auto simp: mult.commute)

lemma vec_norm_x: "vec_norm (Vector3d (Fin a) (Fin 0) (Fin 0)) = Fin \<bar>a\<bar>"
  by (simp add: vec_norm_def)

section \<open>Facts about \<open>setJointState\<close>\<close>

lemma setJointState_nan: "isnan angle \<Longrightarrow> setJointState p j angle st = Inr st"
  by (simp add: setJointState_def)

lemma setJointState_plain:
  "\<not> isnan angle \<Longrightarrow> getMimic (jointModel p j) = None \<Longrightarrow>
   setJointState p j angle st =
     store st (slot p j)
       (clamp (computeVariablePositions p j angle)
          (min_position (limits_of p j)) (max_position (limits_of p j)))"
  by (simp add: setJointState_def Let_def slot_def split: sum.splits)

lemma setJointState_mimic:
  "\<not> isnan angle \<Longrightarrow> getMimic (jointModel p j) = Some m \<Longrightarrow>
   slot p j < length st \<Longrightarrow> slot p m < length st \<Longrightarrow>
   setJointState p j angle st =
     updateMimics p j
       (clamp (ddiv (dsub (computeVariablePositions p j angle) (getMimicOffset (jointModel p j)))
                 (getMimicFactor (jointModel p j)))
          (min_position (limits_of p m)) (max_position (limits_of p m)))
       (getMimicRequests (jointModel p m))
       (st[slot p j :=
             clamp (computeVariablePositions p j angle)
               (min_position (limits_of p j)) (max_position (limits_of p j)),
           slot p m :=
             ddiv (dsub (computeVariablePositions p j angle) (getMimicOffset (jointModel p j)))
               (getMimicFactor (jointModel p j))])"
  by (simp add: setJointState_def Let_def slot_def store_ok)

lemma setJointState_plugin_plain:
  "getMimic (jointModel p j) = None \<Longrightarrow>
   setJointState_plugin p j angle st =
     store st (slot p j)
       (if isnan angle then max_position (limits_of p j)
        else clamp angle (min_position (limits_of p j)) (max_position (limits_of p j)))"
  by (simp add: setJointState_plugin_def Let_def slot_def split: sum.splits)


lemma setJointState_length:
  "setJointState p j angle st = Inr st' \<Longrightarrow> length st' = length st"
  by (auto simp: setJointState_def Let_def store_Inr_iff dest!: updateMimics_length
      split: if_splits sum.splits option.splits)

lemma setJointState_ok:
  assumes "resolved p j" and "length st = length (m_joints p)"
  shows "\<exists>st'. setJointState p j angle st = Inr st' \<and> length st' = length st"
proof (cases "isnan angle")
  case True
  then show ?thesis by (simp add: setJointState_nan)
next
  case False
  from assms have j: "slot p j < length st" by (simp add: resolved_def slot_less)
  show ?thesis
  proof (cases "getMimic (jointModel p j)")
    case None
    with False j show ?thesis by (simp add: setJointState_plain store_ok)
  next
    case (Some m)
    with assms have m: "slot p m < length st" by (simp add: resolved_def slot_less)
    have "\<exists>st'. updateMimics p j ms reqs (st[a := x, b := y]) = Inr st'
            \<and> length st' = length (st[a := x, b := y])" for ms reqs a x b y
      by (rule updateMimics_ok) (simp add: assms(2))
    then show ?thesis
      by (simp add: setJointState_mimic [OF False Some j m])
  qed
qed

lemma setJointState_frame:
  assumes "setJointState p j angle st = Inr st'"
    and "i \<noteq> slot p j" and "i \<notin> mimic_slots p j"
  shows "st' ! i = st ! i"
proof (cases "isnan angle")
  case True
  with assms(1) show ?thesis by (simp add: setJointState_nan)
next
  case False
  show ?thesis
  proof (cases "getMimic (jointModel p j)")
    case None
    with False assms show ?thesis by (auto simp: setJointState_plain store_Inr_iff)
  next
    case (Some m)
    from assms(1) False Some have j: "slot p j < length st"
      by (auto simp: setJointState_def Let_def slot_def store_Inr_iff split: sum.splits)
    from assms(1) False Some have m: "slot p m < length st"
      by (auto simp: setJointState_def Let_def slot_def store_Inr_iff split: sum.splits)
    from assms(3) Some have im: "i \<noteq> slot p m"
      and rest: "i \<notin> slot p ` {s \<in> set (getMimicRequests (jointModel p m)). s \<noteq> j \<and> s \<in> set (m_joints p)}"
      by (auto simp: mimic_slots_def)
    from assms(1) have "st' ! i = (st[slot p j :=
             clamp (computeVariablePositions p j angle)
               (min_position (limits_of p j)) (max_position (limits_of p j)),
           slot p m :=
             ddiv (dsub (computeVariablePositions p j angle) (getMimicOffset (jointModel p j)))
               (getMimicFactor (jointModel p j))]) ! i"
      unfolding setJointState_mimic [OF False Some j m]
      by (rule updateMimics_frame) (rule rest)
    with im assms(2) show ?thesis by simp
  qed
qed

lemma setJointState_own_slot:
  assumes run: "setJointState p j angle st = Inr st'"
    and nn: "\<not> isnan angle" and j: "j \<in> set (m_joints p)"
    and self: "getMimic (jointModel p j) \<noteq> Some j"
  shows "st' ! slot p j =
           clamp (computeVariablePositions p j angle)
             (min_position (limits_of p j)) (max_position (limits_of p j))"
proof (cases "getMimic (jointModel p j)")
  case None
  with run nn show ?thesis by (auto simp: setJointState_plain store_Inr_iff)
next
  case (Some m)
  with self have mj: "m \<noteq> j" by auto
  from run nn Some have sj: "slot p j < length st" and sm: "slot p m < length st"
    by (auto simp: setJointState_def Let_def slot_def store_Inr_iff split: sum.splits)
  have ne: "slot p j \<noteq> slot p m" using slot_inj [OF j] mj by auto
  have "slot p j \<notin> slot p ` {s \<in> set (getMimicRequests (jointModel p m)). s \<noteq> j \<and> s \<in> set (m_joints p)}"
    using slot_inj [OF j] by auto
  from updateMimics_frame [OF run [unfolded setJointState_mimic [OF nn Some sj sm]] this]
  show ?thesis using ne sj by simp
qed

lemma setJointMaxState_eq:
  "setJointMaxState p j st = store st (slot p j) (max_position (limits_of p j))"
  by (simp add: setJointMaxState_def slot_def)

lemma setJointMinState_eq:
  "setJointMinState p j st = store st (slot p j) (min_position (limits_of p j))"
  by (simp add: setJointMinState_def slot_def)

lemma searchPositionIK_valid:
  assumes "valid_request p poses seed"
  shows "searchPositionIK p poses seed solution cb ec =
    (case setJointState p (m_pMountJoint p) (mount_angle_spec p poses) seed of
       Inl e \<Rightarrow> Inl e
     | Inr s1 \<Rightarrow>
        (case (if dgt (vec_norm (targetLocal p poses)) (reachableMaxNorm p)
               then (case setJointMaxState p (m_pShoulderJoint p) s1 of
                       Inl e \<Rightarrow> Inl e
                     | Inr s2 \<Rightarrow> setJointMaxState p (m_pElbowJoint p) s2)
               else if dlt (vec_norm (targetLocal p poses)) (reachableMinNorm p)
               then (case setJointMinState p (m_pShoulderJoint p) s1 of
                       Inl e \<Rightarrow> Inl e
                     | Inr s2 \<Rightarrow> setJointMinState p (m_pElbowJoint p) s2)
               else setJointState p (m_pShoulderJoint p) (shoulder_angle p poses) s1) of
           Inl e \<Rightarrow> Inl e
         | Inr s3 \<Rightarrow>
             Inr (True, (case cb of None \<Rightarrow> SUCCESS | Some f \<Rightarrow> f (hd poses) s3 SUCCESS), s3)))"
  using assms
  unfolding searchPositionIK_def Let_def mount_angle_spec_def shoulder_angle_def getAngle_def
  by (simp add: validateSeedState_eq validateTarget_def valid_request_def)

lemma searchPositionIK_steps:
  assumes valid: "valid_request p poses seed"
    and mount: "resolved p (m_pMountJoint p)"
    and shoulder: "resolved p (m_pShoulderJoint p)"
    and elbow: "m_pElbowJoint p \<in> set (m_joints p)"
  shows "\<exists>s1 s3 code.
           setJointState p (m_pMountJoint p) (mount_angle_spec p poses) seed = Inr s1
           \<and> length s1 = length seed
           \<and> searchPositionIK p poses seed solution cb ec = Inr (True, code, s3)
           \<and> length s3 = length seed
           \<and> (if dgt (vec_norm (targetLocal p poses)) (reachableMaxNorm p)
              then s3 = s1[slot p (m_pShoulderJoint p) := max_position (limits_of p (m_pShoulderJoint p)),
                           slot p (m_pElbowJoint p) := max_position (limits_of p (m_pElbowJoint p))]
              else if dlt (vec_norm (targetLocal p poses)) (reachableMinNorm p)
              then s3 = s1[slot p (m_pShoulderJoint p) := min_position (limits_of p (m_pShoulderJoint p)),
                           slot p (m_pElbowJoint p) := min_position (limits_of p (m_pElbowJoint p))]
              else setJointState p (m_pShoulderJoint p) (shoulder_angle p poses) s1 = Inr s3)"
proof -
  from valid have len: "length seed = length (m_joints p)" by (simp add: valid_request_def)
  from setJointState_ok [OF mount len] obtain s1 where
    s1: "setJointState p (m_pMountJoint p) (mount_angle_spec p poses) seed = Inr s1"
    and l1: "length s1 = length seed" by blast
  from shoulder have sh: "slot p (m_pShoulderJoint p) < length s1"
    by (simp add: resolved_def slot_less l1 len)
  from elbow have el: "slot p (m_pElbowJoint p) < length s1"
    by (simp add: slot_less l1 len)
  from setJointState_ok [OF shoulder, of s1 "shoulder_angle p poses"] l1 len obtain s3 where
    s3: "setJointState p (m_pShoulderJoint p) (shoulder_angle p poses) s1 = Inr s3"
    and l3: "length s3 = length s1" by auto
  show ?thesis
    using s1 l1 sh el s3 l3
    by (simp add: searchPositionIK_valid [OF valid] setJointMaxState_eq setJointMinState_eq store_ok)
qed

lemma dlt_dle_trans: "dle a b \<Longrightarrow> dlt t a \<Longrightarrow> \<not> dlt b t"
  by (cases a; cases b; cases t) (auto simp: dle_def)

section \<open>Facts about limits\<close>

lemma clamp_in_limits: "dle lo hi \<Longrightarrow> \<not> isnan v \<Longrightarrow> in_limits (clamp v lo hi) lo hi"
  by (cases v; cases lo; cases hi) (auto simp: clamp_def in_limits_def dle_def)

lemma limits_in_limits: "dle lo hi \<Longrightarrow> in_limits lo lo hi \<and> in_limits hi lo hi"
  by (cases lo; cases hi) (auto simp: in_limits_def dle_def)

lemma finite_or_nan: "a \<noteq> PInf \<Longrightarrow> a \<noteq> MInf \<Longrightarrow> a = NaN \<or> (\<exists>r. a = Fin r)"
  by (cases a) auto

lemma datan2_not_inf: "datan2 a b \<noteq> PInf \<and> datan2 a b \<noteq> MInf"
  by (cases a; cases b) auto

lemma dsub_not_inf:
  "a \<noteq> PInf \<and> a \<noteq> MInf \<Longrightarrow> b \<noteq> PInf \<and> b \<noteq> MInf \<Longrightarrow> dsub a b \<noteq> PInf \<and> dsub a b \<noteq> MInf"
  by (cases a; cases b) (auto simp: dsub_def)

lemma dacos_not_inf: "dacos a \<noteq> PInf \<and> dacos a \<noteq> MInf"
  by (cases a) auto

lemma mount_angle_finite_or_nan:
  "mount_angle_spec p ik_poses = NaN \<or> (\<exists>r. mount_angle_spec p ik_poses = Fin r)"
  using dsub_not_inf [OF datan2_not_inf datan2_not_inf]
  unfolding mount_angle_spec_def by (intro finite_or_nan) auto

lemma shoulder_angle_finite_or_nan:
  "shoulder_angle p ik_poses = NaN \<or> (\<exists>r. shoulder_angle p ik_poses = Fin r)"
proof -
  have "ddiv M_PI (Fin 2) \<noteq> PInf \<and> ddiv M_PI (Fin 2) \<noteq> MInf" by (simp add: M_PI_def)
  from dsub_not_inf [OF dacos_not_inf this] show ?thesis
    unfolding shoulder_angle_def lawOfCosines_def by (intro finite_or_nan) auto
qed

lemma all_in_limits_update:
  assumes inv: "all_in_limits p st" and j: "j \<in> set (m_joints p)"
    and v: "in_limits v (min_position (limits_of p j)) (max_position (limits_of p j))"
  shows "all_in_limits p (st[slot p j := v])"
  unfolding all_in_limits_def
proof (intro allI impI)
  fix i assume i: "i < length (st[slot p j := v])"
  show "in_limits (st[slot p j := v] ! i) (min_position (limits_of p (m_joints p ! i)))
          (max_position (limits_of p (m_joints p ! i)))"
  proof (cases "i = slot p j")
    case True
    with i v slot_nth [OF j] show ?thesis by simp
  next
    case False
    with i inv show ?thesis by (simp add: all_in_limits_def)
  qed
qed

lemma setJointState_plain_in_limits:
  assumes inv: "all_in_limits p st" and j: "j \<in> set (m_joints p)"
    and plain: "getMimic (jointModel p j) = None"
    and ordered: "limits_ordered p"
    and angle: "angle = NaN \<or> (\<exists>r. angle = Fin r)"
    and cvp: "\<forall>j r. \<not> isnan (computeVariablePositions p j (Fin r))"
    and run: "setJointState p j angle st = Inr st'"
  shows "all_in_limits p st'"
proof (cases "isnan angle")
  case True
  with run inv show ?thesis by (simp add: setJointState_nan)
next
  case False
  with angle obtain r where r: "angle = Fin r" by auto
  from ordered j have "dle (min_position (limits_of p j)) (max_position (limits_of p j))"
    by (simp add: limits_ordered_def)
  from clamp_in_limits [OF this] cvp r
  have "in_limits (clamp (computeVariablePositions p j angle)
          (min_position (limits_of p j)) (max_position (limits_of p j)))
          (min_position (limits_of p j)) (max_position (limits_of p j))" by simp
  from all_in_limits_update [OF inv j this] run False plain show ?thesis
    by (auto simp: setJointState_plain store_Inr_iff)
qed

text \<open>The definitions that evaluate the solver on a concrete chain.\<close>

lemmas solver_defs =
  searchPositionIK_def validateSeedState_eq validateTarget_def targetLocal_def
  shoulderWorld_def shoulderToEffector_def wristToEffector_def getLinkLength_def
  reachableMaxNorm_def reachableMinNorm_def vec_sub_def dsub_def getAngle_def
  atan2_real_def vec_norm_x setJointState_def setJointState_plugin_def
  setJointMaxState_def setJointMinState_def
  store_def limits_of_def clamp_def dgt_def Let_def

lemmas demo_defs =
  demo_plugin_def demo_joint_def demo_links_def far_pose_def near_pose_def
  mimic_plugin_def mimic_joint_def elbow_mimic_plugin_def elbow_mimic_joint_def
  mount_mimic_plugin_def mount_mimic_joint_def

section \<open>The law of cosines\<close>

text \<open>
  C4, as stated: the argument of \<open>acos\<close> is clamped into \<open>[-1, 1]\<close>, so that
  \<open>lawOfCosines\<close> never yields NaN. It fails for the sides \<open>(1, 1, 3)\<close>: the argument is
  \<open>-7/2\<close>, the code returns NaN, and the clamped computation would return \<open>\<pi>\<close>.
\<close>

theorem lawOfCosines_not_clamped:
  "lawOfCosines (Fin 1) (Fin 1) (Fin 3) = NaN
   \<and> lawOfCosines_spec (Fin 1) (Fin 1) (Fin 3) = Fin pi"
  by (simp add: lawOfCosines_def lawOfCosines_spec_def cosineArgument_def dsub_def clamp_def)

text \<open>
  C4, amended: \<open>lawOfCosines\<close> applies \<open>acos\<close> to the unclamped argument
  \<open>(a * a + b * b - c * c) / (2 * a * b)\<close>, so its result is NaN exactly when the argument
  is NaN or lies outside \<open>[-1, 1]\<close>. The NaN is absorbed by the caller: the shoulder
  angle computed from it is NaN, and \<open>setJointState\<close> writes nothing for a NaN angle and
  returns the state vector as it was.
\<close>

theorem lawOfCosines_domain:
  "lawOfCosines a b c = dacos (cosineArgument a b c)
   \<and> (isnan (lawOfCosines a b c) \<longleftrightarrow> \<not> in_limits (cosineArgument a b c) (Fin (- 1)) (Fin 1))
   \<and> (isnan (lawOfCosines a b c) \<longrightarrow>
        setJointState p j (dsub (lawOfCosines a b c) (ddiv M_PI (Fin 2))) states = Inr states)"
proof -
  have eq: "lawOfCosines a b c = dacos (cosineArgument a b c)"
    by (simp add: lawOfCosines_def cosineArgument_def)
  have "isnan (dsub x y)" if "isnan x" for x y
    using that by (cases x) (simp_all add: dsub_def)
  then show ?thesis
    by (simp add: eq dacos_nan_iff setJointState_nan)
qed

theorem lawOfCosines_domain_witness:
  "isnan (lawOfCosines (Fin 1) (Fin 1) (Fin 3))
   \<and> cosineArgument (Fin 1) (Fin 1) (Fin 3) = Fin (- (7 / 2))
   \<and> setJointState demo_plugin 1
        (dsub (lawOfCosines (Fin 1) (Fin 1) (Fin 3)) (ddiv M_PI (Fin 2)))
        [Fin 0, Fin 0, Fin 0, Fin 0]
      = Inr [Fin 0, Fin 0, Fin 0, Fin 0]
   \<and> lawOfCosines (Fin 1) (Fin 1) (Fin 1) = Fin (arccos (1 / 2))
   \<and> in_limits (cosineArgument (Fin 1) (Fin 1) (Fin 1)) (Fin (- 1)) (Fin 1)"
proof -
  have arg: "cosineArgument (Fin 1) (Fin 1) (Fin 3) = Fin (- (7 / 2))"
    "cosineArgument (Fin 1) (Fin 1) (Fin 1) = Fin (1 / 2)"
    by (simp_all add: cosineArgument_def dsub_def)
  have out: "\<not> in_limits (Fin (- (7 / 2))) (Fin (- 1)) (Fin 1)"
    and inside: "in_limits (Fin (1 / 2)) (Fin (- 1)) (Fin 1)"
    by (simp_all add: in_limits_def dle_def)
  from lawOfCosines_domain [of "Fin 1" "Fin 1" "Fin 3" demo_plugin 1 "[Fin 0, Fin 0, Fin 0, Fin 0]"]
    lawOfCosines_domain [of "Fin 1" "Fin 1" "Fin 1" demo_plugin 1 "[]"]
    arg out inside
  show ?thesis by auto
qed

section \<open>Rejected requests\<close>

text \<open>
  C5: a call of \<open>searchPositionIK\<close> whose seed has not one entry per joint, or that has
  not exactly one pose for exactly one tip frame, returns \<open>false\<close> with the error code
  \<open>NO_IK_SOLUTION\<close>; it ends regularly, and \<open>validateSeedState\<close> indexes neither the
  seed nor \<open>m_joints\<close> out of bounds.
\<close>

theorem searchPositionIK_rejects_invalid:
  "\<not> valid_request p ik_poses ik_seed_state \<Longrightarrow>
   validateSeedState p ik_seed_state \<noteq> Inl OutOfBounds
   \<and> (\<exists>sol. searchPositionIK p ik_poses ik_seed_state solution callback error_code
             = Inr (False, NO_IK_SOLUTION, sol))"
  by (auto simp: searchPositionIK_def validateSeedState_eq validateTarget_def valid_request_def)

theorem searchPositionIK_rejects_invalid_witness:
  "\<not> valid_request demo_plugin [far_pose] [Fin 0, Fin 0, Fin 0]
   \<and> (\<exists>sol. searchPositionIK demo_plugin [far_pose] [Fin 0, Fin 0, Fin 0] [] None UNSET
             = Inr (False, NO_IK_SOLUTION, sol))
   \<and> \<not> valid_request demo_plugin [far_pose, near_pose] [Fin 0, Fin 0, Fin 0, Fin 0]
   \<and> (\<exists>sol. searchPositionIK demo_plugin [far_pose, near_pose] [Fin 0, Fin 0, Fin 0, Fin 0]
               [] None UNSET
             = Inr (False, NO_IK_SOLUTION, sol))"
proof -
  have a: "\<not> valid_request demo_plugin [far_pose] [Fin 0, Fin 0, Fin 0]"
    by (simp add: valid_request_def demo_plugin_def)
  have b: "\<not> valid_request demo_plugin [far_pose, near_pose] [Fin 0, Fin 0, Fin 0, Fin 0]"
    by (simp add: valid_request_def demo_plugin_def)
  from a b searchPositionIK_rejects_invalid [OF a] searchPositionIK_rejects_invalid [OF b]
  show ?thesis by blast
qed

text \<open>
  C9: a call of \<open>searchPositionIK\<close> that fails the validation of the seed or of the target
  returns before it writes the caller's solution vector: at return the vector is what
  the caller passed in.
\<close>

theorem searchPositionIK_invalid_keeps_solution:
  "\<not> valid_request p ik_poses ik_seed_state \<Longrightarrow>
   \<exists>ok code. searchPositionIK p ik_poses ik_seed_state solution callback error_code
              = Inr (ok, code, solution)"
  by (auto simp: searchPositionIK_def validateSeedState_eq validateTarget_def valid_request_def)

theorem searchPositionIK_invalid_keeps_solution_witness:
  "\<not> valid_request demo_plugin [] [Fin 0, Fin 0, Fin 0, Fin 0]
   \<and> (\<exists>ok code. searchPositionIK demo_plugin [] [Fin 0, Fin 0, Fin 0, Fin 0]
                   [Fin 7, Fin 8] None UNSET
                 = Inr (ok, code, [Fin 7, Fin 8]))"
proof -
  have a: "\<not> valid_request demo_plugin [] [Fin 0, Fin 0, Fin 0, Fin 0]"
    by (simp add: valid_request_def)
  from a searchPositionIK_invalid_keeps_solution [OF a] show ?thesis by blast
qed

section \<open>Targets outside the reach envelope\<close>

text \<open>
  C1: for a solve call that passes validation, when the distance of the target from the
  shoulder origin exceeds \<open>reachableMaxNorm\<close> (the norm of the constant \<open>MAX\<close> less the
  wrist-to-effector distance), the returned vector holds \<open>max_position\<close> of the shoulder in
  the shoulder's slot and \<open>max_position\<close> of the elbow in the elbow's slot; when the
  distance is below \<open>reachableMinNorm\<close>, the two slots hold the two \<open>min_position\<close>. The
  constants \<open>MIN\<close> and \<open>MAX\<close> are parameters, so the statement covers
  \<open>|MAX| = |upperArm| + |forearm|\<close>; the envelope is taken to be ordered,
  \<open>reachableMinNorm \<le> reachableMaxNorm\<close>.
\<close>

theorem reach_limits:
  assumes valid: "valid_request p ik_poses ik_seed_state"
    and mount: "resolved p (m_pMountJoint p)"
    and shoulder: "m_pShoulderJoint p \<in> set (m_joints p)"
    and elbow: "m_pElbowJoint p \<in> set (m_joints p)"
    and distinct: "m_pShoulderJoint p \<noteq> m_pElbowJoint p"
    and envelope: "dle (reachableMinNorm p) (reachableMaxNorm p)"
  shows "(dgt (vec_norm (targetLocal p ik_poses)) (reachableMaxNorm p) \<longrightarrow>
           (\<exists>code sol. searchPositionIK p ik_poses ik_seed_state solution callback error_code
                          = Inr (True, code, sol)
              \<and> sol ! slot p (m_pShoulderJoint p) = max_position (limits_of p (m_pShoulderJoint p))
              \<and> sol ! slot p (m_pElbowJoint p) = max_position (limits_of p (m_pElbowJoint p))))
       \<and> (dlt (vec_norm (targetLocal p ik_poses)) (reachableMinNorm p) \<longrightarrow>
           (\<exists>code sol. searchPositionIK p ik_poses ik_seed_state solution callback error_code
                          = Inr (True, code, sol)
              \<and> sol ! slot p (m_pShoulderJoint p) = min_position (limits_of p (m_pShoulderJoint p))
              \<and> sol ! slot p (m_pElbowJoint p) = min_position (limits_of p (m_pElbowJoint p))))"
proof -
  from valid have len: "length ik_seed_state = length (m_joints p)"
    by (simp add: valid_request_def)
  from setJointState_ok [OF mount len] obtain s1 where
    s1: "setJointState p (m_pMountJoint p) (mount_angle_spec p ik_poses) ik_seed_state = Inr s1"
    and l1: "length s1 = length ik_seed_state" by blast
  from shoulder have sh: "slot p (m_pShoulderJoint p) < length s1"
    by (simp add: slot_less l1 len)
  from elbow have el: "slot p (m_pElbowJoint p) < length s1"
    by (simp add: slot_less l1 len)
  have ne: "slot p (m_pShoulderJoint p) \<noteq> slot p (m_pElbowJoint p)"
    using slot_inj [OF shoulder] distinct by auto
  show ?thesis
  proof (intro conjI impI)
    assume "dgt (vec_norm (targetLocal p ik_poses)) (reachableMaxNorm p)"
    then show "\<exists>code sol. searchPositionIK p ik_poses ik_seed_state solution callback error_code
                          = Inr (True, code, sol)
              \<and> sol ! slot p (m_pShoulderJoint p) = max_position (limits_of p (m_pShoulderJoint p))
              \<and> sol ! slot p (m_pElbowJoint p) = max_position (limits_of p (m_pElbowJoint p))"
      using s1 sh el ne
      by (simp add: searchPositionIK_valid [OF valid] setJointMaxState_eq store_ok)
  next
    assume near: "dlt (vec_norm (targetLocal p ik_poses)) (reachableMinNorm p)"
    with envelope have "\<not> dgt (vec_norm (targetLocal p ik_poses)) (reachableMaxNorm p)"
      unfolding dgt_def by (rule dlt_dle_trans)
    with near show "\<exists>code sol. searchPositionIK p ik_poses ik_seed_state solution callback error_code
                          = Inr (True, code, sol)
              \<and> sol ! slot p (m_pShoulderJoint p) = min_position (limits_of p (m_pShoulderJoint p))
              \<and> sol ! slot p (m_pElbowJoint p) = min_position (limits_of p (m_pElbowJoint p))"
      using s1 sh el ne
      by (simp add: searchPositionIK_valid [OF valid] setJointMinState_eq store_ok)
  qed
qed

theorem reach_limits_witness:
  "valid_request demo_plugin [far_pose] [Fin 0, Fin 0, Fin 0, Fin 0]
   \<and> valid_request demo_plugin [near_pose] [Fin 0, Fin 0, Fin 0, Fin 0]
   \<and> resolved demo_plugin (m_pMountJoint demo_plugin)
   \<and> m_pShoulderJoint demo_plugin \<in> set (m_joints demo_plugin)
   \<and> m_pElbowJoint demo_plugin \<in> set (m_joints demo_plugin)
   \<and> m_pShoulderJoint demo_plugin \<noteq> m_pElbowJoint demo_plugin
   \<and> dle (reachableMinNorm demo_plugin) (reachableMaxNorm demo_plugin)
   \<and> dgt (vec_norm (targetLocal demo_plugin [far_pose])) (reachableMaxNorm demo_plugin)
   \<and> (\<exists>code sol. searchPositionIK demo_plugin [far_pose] [Fin 0, Fin 0, Fin 0, Fin 0] [] None UNSET
                    = Inr (True, code, sol)
         \<and> sol ! slot demo_plugin (m_pShoulderJoint demo_plugin) = Fin 1
         \<and> sol ! slot demo_plugin (m_pElbowJoint demo_plugin) = Fin 1)
   \<and> dlt (vec_norm (targetLocal demo_plugin [near_pose])) (reachableMinNorm demo_plugin)
   \<and> (\<exists>code sol. searchPositionIK demo_plugin [near_pose] [Fin 0, Fin 0, Fin 0, Fin 0] [] None UNSET
                    = Inr (True, code, sol)
         \<and> sol ! slot demo_plugin (m_pShoulderJoint demo_plugin) = Fin (- 1)
         \<and> sol ! slot demo_plugin (m_pElbowJoint demo_plugin) = Fin (- 1))"
proof -
  have v1: "valid_request demo_plugin [far_pose] [Fin 0, Fin 0, Fin 0, Fin 0]"
    and v2: "valid_request demo_plugin [near_pose] [Fin 0, Fin 0, Fin 0, Fin 0]"
    by (simp_all add: valid_request_def demo_plugin_def)
  have m: "resolved demo_plugin (m_pMountJoint demo_plugin)"
    by (simp add: resolved_def demo_defs)
  have s: "m_pShoulderJoint demo_plugin \<in> set (m_joints demo_plugin)"
    and e: "m_pElbowJoint demo_plugin \<in> set (m_joints demo_plugin)"
    and d: "m_pShoulderJoint demo_plugin \<noteq> m_pElbowJoint demo_plugin"
    by (simp_all add: demo_plugin_def)
  have env: "dle (reachableMinNorm demo_plugin) (reachableMaxNorm demo_plugin)"
    by (simp add: solver_defs demo_defs dle_def)
  have far: "dgt (vec_norm (targetLocal demo_plugin [far_pose])) (reachableMaxNorm demo_plugin)"
    by (simp add: solver_defs demo_defs)
  have near: "dlt (vec_norm (targetLocal demo_plugin [near_pose])) (reachableMinNorm demo_plugin)"
    by (simp add: solver_defs demo_defs)
  have lims: "max_position (limits_of demo_plugin (m_pShoulderJoint demo_plugin)) = Fin 1"
    "max_position (limits_of demo_plugin (m_pElbowJoint demo_plugin)) = Fin 1"
    "min_position (limits_of demo_plugin (m_pShoulderJoint demo_plugin)) = Fin (- 1)"
    "min_position (limits_of demo_plugin (m_pElbowJoint demo_plugin)) = Fin (- 1)"
    by (simp_all add: limits_of_def demo_defs)
  from reach_limits [OF v1 m s e d env, of "[]" None UNSET] far
    reach_limits [OF v2 m s e d env, of "[]" None UNSET] near
  have "(\<exists>code sol. searchPositionIK demo_plugin [far_pose] [Fin 0, Fin 0, Fin 0, Fin 0] [] None UNSET
                    = Inr (True, code, sol)
         \<and> sol ! slot demo_plugin (m_pShoulderJoint demo_plugin) = Fin 1
         \<and> sol ! slot demo_plugin (m_pElbowJoint demo_plugin) = Fin 1)"
    and "(\<exists>code sol. searchPositionIK demo_plugin [near_pose] [Fin 0, Fin 0, Fin 0, Fin 0] [] None UNSET
                    = Inr (True, code, sol)
         \<and> sol ! slot demo_plugin (m_pShoulderJoint demo_plugin) = Fin (- 1)
         \<and> sol ! slot demo_plugin (m_pElbowJoint demo_plugin) = Fin (- 1))"
    unfolding lims by blast+
  with v1 v2 m s e d env far near show ?thesis by blast
qed

section \<open>Slots the solver leaves alone\<close>




section \<open>The mount angle\<close>

text \<open>
  C3: for a solve call that passes validation, the angle of the mount (yaw) joint is
  \<open>atan2(targetLocal.y, targetLocal.x)\<close> minus the fixed offset
  \<open>atan2(shoulderToEffector.y, shoulderToEffector.x)\<close> of the zero pose
  (\<open>mount_angle_spec\<close>): the mount's slot of the returned vector holds the position of
  that angle, clamped into the mount's limits, and the seed's entry when the angle is
  NaN. The mount is a joint other than the shoulder and the elbow, and no later write
  of the shoulder's mimic relation lands in its slot.
\<close>

theorem mount_angle:
  assumes valid: "valid_request p ik_poses ik_seed_state"
    and mount: "resolved p (m_pMountJoint p)"
    and shoulder: "resolved p (m_pShoulderJoint p)"
    and elbow: "m_pElbowJoint p \<in> set (m_joints p)"
    and distinct: "m_pMountJoint p \<notin> {m_pShoulderJoint p, m_pElbowJoint p}"
    and self: "getMimic (jointModel p (m_pMountJoint p)) \<noteq> Some (m_pMountJoint p)"
    and unrelated: "slot p (m_pMountJoint p) \<notin> mimic_slots p (m_pShoulderJoint p)"
  shows "\<exists>code sol.
           searchPositionIK p ik_poses ik_seed_state solution callback error_code
             = Inr (True, code, sol)
           \<and> sol ! slot p (m_pMountJoint p) =
               (if isnan (mount_angle_spec p ik_poses)
                then ik_seed_state ! slot p (m_pMountJoint p)
                else clamp (computeVariablePositions p (m_pMountJoint p) (mount_angle_spec p ik_poses))
                       (min_position (limits_of p (m_pMountJoint p)))
                       (max_position (limits_of p (m_pMountJoint p))))"
proof -
  from mount have mj: "m_pMountJoint p \<in> set (m_joints p)" by (simp add: resolved_def)
  from shoulder have sj: "m_pShoulderJoint p \<in> set (m_joints p)" by (simp add: resolved_def)
  have ne: "slot p (m_pMountJoint p) \<noteq> slot p (m_pShoulderJoint p)"
    "slot p (m_pMountJoint p) \<noteq> slot p (m_pElbowJoint p)"
    using slot_inj [OF mj] distinct by auto
  from searchPositionIK_steps [OF valid mount shoulder elbow, of solution callback error_code]
  obtain s1 s3 code where
    s1: "setJointState p (m_pMountJoint p) (mount_angle_spec p ik_poses) ik_seed_state = Inr s1"
    and run: "searchPositionIK p ik_poses ik_seed_state solution callback error_code
                = Inr (True, code, s3)"
    and s3: "if dgt (vec_norm (targetLocal p ik_poses)) (reachableMaxNorm p)
             then s3 = s1[slot p (m_pShoulderJoint p) := max_position (limits_of p (m_pShoulderJoint p)),
                          slot p (m_pElbowJoint p) := max_position (limits_of p (m_pElbowJoint p))]
             else if dlt (vec_norm (targetLocal p ik_poses)) (reachableMinNorm p)
             then s3 = s1[slot p (m_pShoulderJoint p) := min_position (limits_of p (m_pShoulderJoint p)),
                          slot p (m_pElbowJoint p) := min_position (limits_of p (m_pElbowJoint p))]
             else setJointState p (m_pShoulderJoint p) (shoulder_angle p ik_poses) s1 = Inr s3"
    by blast
  have first: "s1 ! slot p (m_pMountJoint p) =
               (if isnan (mount_angle_spec p ik_poses)
                then ik_seed_state ! slot p (m_pMountJoint p)
                else clamp (computeVariablePositions p (m_pMountJoint p) (mount_angle_spec p ik_poses))
                       (min_position (limits_of p (m_pMountJoint p)))
                       (max_position (limits_of p (m_pMountJoint p))))"
    using s1 setJointState_own_slot [OF s1 _ mj self]
    by (auto simp: setJointState_nan)
  have "s3 ! slot p (m_pMountJoint p) = s1 ! slot p (m_pMountJoint p)"
  proof (cases "dgt (vec_norm (targetLocal p ik_poses)) (reachableMaxNorm p)
                \<or> dlt (vec_norm (targetLocal p ik_poses)) (reachableMinNorm p)")
    case True
    with s3 ne show ?thesis by (auto split: if_splits)
  next
    case False
    with s3 have "setJointState p (m_pShoulderJoint p) (shoulder_angle p ik_poses) s1 = Inr s3"
      by simp
    from setJointState_frame [OF this ne(1) unrelated] show ?thesis .
  qed
  with first run show ?thesis by auto
qed

theorem mount_angle_witness:
  "valid_request demo_plugin [far_pose] [Fin 5, Fin 0, Fin 0, Fin 0]
   \<and> resolved demo_plugin (m_pMountJoint demo_plugin)
   \<and> resolved demo_plugin (m_pShoulderJoint demo_plugin)
   \<and> m_pElbowJoint demo_plugin \<in> set (m_joints demo_plugin)
   \<and> m_pMountJoint demo_plugin \<notin> {m_pShoulderJoint demo_plugin, m_pElbowJoint demo_plugin}
   \<and> getMimic (jointModel demo_plugin (m_pMountJoint demo_plugin))
        \<noteq> Some (m_pMountJoint demo_plugin)
   \<and> slot demo_plugin (m_pMountJoint demo_plugin)
        \<notin> mimic_slots demo_plugin (m_pShoulderJoint demo_plugin)
   \<and> mount_angle_spec demo_plugin [far_pose] = Fin 0
   \<and> (\<exists>code sol.
         searchPositionIK demo_plugin [far_pose] [Fin 5, Fin 0, Fin 0, Fin 0] [] None UNSET
           = Inr (True, code, sol)
         \<and> sol ! 0 = Fin 0)"
proof -
  have v: "valid_request demo_plugin [far_pose] [Fin 5, Fin 0, Fin 0, Fin 0]"
    by (simp add: valid_request_def demo_plugin_def)
  have m: "resolved demo_plugin (m_pMountJoint demo_plugin)"
    and s: "resolved demo_plugin (m_pShoulderJoint demo_plugin)"
    by (simp_all add: resolved_def demo_defs)
  have e: "m_pElbowJoint demo_plugin \<in> set (m_joints demo_plugin)"
    and d: "m_pMountJoint demo_plugin \<notin> {m_pShoulderJoint demo_plugin, m_pElbowJoint demo_plugin}"
    by (simp_all add: demo_plugin_def)
  have g: "getMimic (jointModel demo_plugin (m_pMountJoint demo_plugin))
        \<noteq> Some (m_pMountJoint demo_plugin)"
    by (simp add: demo_defs)
  have u: "slot demo_plugin (m_pMountJoint demo_plugin)
        \<notin> mimic_slots demo_plugin (m_pShoulderJoint demo_plugin)"
    by (simp add: mimic_slots_def demo_defs)
  have a: "mount_angle_spec demo_plugin [far_pose] = Fin 0"
    by (simp add: mount_angle_spec_def solver_defs demo_defs)
  have slot0: "slot demo_plugin (m_pMountJoint demo_plugin) = 0"
    by (simp add: slot_def demo_plugin_def)
  have c: "clamp (computeVariablePositions demo_plugin (m_pMountJoint demo_plugin) (Fin 0))
             (min_position (limits_of demo_plugin (m_pMountJoint demo_plugin)))
             (max_position (limits_of demo_plugin (m_pMountJoint demo_plugin))) = Fin 0"
    by (simp add: clamp_def limits_of_def demo_defs)
  from mount_angle [OF v m s e d g u, of "[]" None UNSET]
  have "\<exists>code sol.
         searchPositionIK demo_plugin [far_pose] [Fin 5, Fin 0, Fin 0, Fin 0] [] None UNSET
           = Inr (True, code, sol)
         \<and> sol ! 0 = Fin 0"
    unfolding slot0 a c by simp
  with v m s e d g u a show ?thesis by blast
qed

section \<open>Limit containment\<close>

text \<open>
  C2, as stated: for every valid solve request, every entry of the returned vector lies
  within the limits of its joint. It fails on the four-joint chain: the solver does not
  write the wrist's slot, so a seed whose wrist entry is \<open>5\<close>, outside \<open>[-1, 1]\<close>, comes
  back with that entry.
\<close>

theorem limit_containment_fails:
  "valid_request demo_plugin [far_pose] [Fin 0, Fin 0, Fin 0, Fin 5]
   \<and> searchPositionIK demo_plugin [far_pose] [Fin 0, Fin 0, Fin 0, Fin 5] [] None UNSET
       = Inr (True, SUCCESS, [Fin 0, Fin 1, Fin 1, Fin 5])
   \<and> \<not> in_limits ([Fin 0, Fin 1, Fin 1, Fin 5] ! 3)
         (min_position (limits_of demo_plugin (m_joints demo_plugin ! 3)))
         (max_position (limits_of demo_plugin (m_joints demo_plugin ! 3)))"
  by (simp add: solver_defs demo_defs valid_request_def in_limits_def dle_def)

text \<open>
  C2, amended: for every valid solve request whose seed entries lie within the limits of
  their joints, on a chain whose limits are ordered and whose mount and shoulder have no
  mimic relation, every entry of the returned vector lies within the limits of its
  joint. (The framework's \<open>computeVariablePositions\<close> is taken to map a finite angle to a
  value that is not NaN.)
\<close>

theorem limit_containment:
  assumes valid: "valid_request p ik_poses ik_seed_state"
    and mount: "m_pMountJoint p \<in> set (m_joints p)"
    and shoulder: "m_pShoulderJoint p \<in> set (m_joints p)"
    and elbow: "m_pElbowJoint p \<in> set (m_joints p)"
    and plain: "getMimic (jointModel p (m_pMountJoint p)) = None"
               "getMimic (jointModel p (m_pShoulderJoint p)) = None"
    and ordered: "limits_ordered p"
    and seed: "all_in_limits p ik_seed_state"
    and cvp: "\<forall>j r. \<not> isnan (computeVariablePositions p j (Fin r))"
  shows "\<exists>code sol.
           searchPositionIK p ik_poses ik_seed_state solution callback error_code
             = Inr (True, code, sol)
           \<and> length sol = length (m_joints p) \<and> all_in_limits p sol"
proof -
  from mount plain(1) have rm: "resolved p (m_pMountJoint p)" by (simp add: resolved_def)
  from shoulder plain(2) have rs: "resolved p (m_pShoulderJoint p)" by (simp add: resolved_def)
  from valid have len: "length ik_seed_state = length (m_joints p)"
    by (simp add: valid_request_def)
  from searchPositionIK_steps [OF valid rm rs elbow, of solution callback error_code]
  obtain s1 s3 code where
    s1: "setJointState p (m_pMountJoint p) (mount_angle_spec p ik_poses) ik_seed_state = Inr s1"
    and run: "searchPositionIK p ik_poses ik_seed_state solution callback error_code
                = Inr (True, code, s3)"
    and l3: "length s3 = length ik_seed_state"
    and s3: "if dgt (vec_norm (targetLocal p ik_poses)) (reachableMaxNorm p)
             then s3 = s1[slot p (m_pShoulderJoint p) := max_position (limits_of p (m_pShoulderJoint p)),
                          slot p (m_pElbowJoint p) := max_position (limits_of p (m_pElbowJoint p))]
             else if dlt (vec_norm (targetLocal p ik_poses)) (reachableMinNorm p)
             then s3 = s1[slot p (m_pShoulderJoint p) := min_position (limits_of p (m_pShoulderJoint p)),
                          slot p (m_pElbowJoint p) := min_position (limits_of p (m_pElbowJoint p))]
             else setJointState p (m_pShoulderJoint p) (shoulder_angle p ik_poses) s1 = Inr s3"
    by blast
  have i1: "all_in_limits p s1"
    by (rule setJointState_plain_in_limits
          [OF seed mount plain(1) ordered mount_angle_finite_or_nan cvp s1])
  have lim: "in_limits (min_position (limits_of p j)) (min_position (limits_of p j)) (max_position (limits_of p j))
             \<and> in_limits (max_position (limits_of p j)) (min_position (limits_of p j)) (max_position (limits_of p j))"
    if "j \<in> set (m_joints p)" for j
    using ordered that by (intro limits_in_limits) (simp add: limits_ordered_def)
  have "all_in_limits p s3"
  proof (cases "dgt (vec_norm (targetLocal p ik_poses)) (reachableMaxNorm p)")
    case True
    with s3 show ?thesis
      using all_in_limits_update [OF all_in_limits_update [OF i1 shoulder] elbow]
        lim [OF shoulder] lim [OF elbow] by simp
  next
    case far: False
    show ?thesis
    proof (cases "dlt (vec_norm (targetLocal p ik_poses)) (reachableMinNorm p)")
      case True
      with far s3 show ?thesis
        using all_in_limits_update [OF all_in_limits_update [OF i1 shoulder] elbow]
          lim [OF shoulder] lim [OF elbow] by simp
    next
      case False
      with far s3 have "setJointState p (m_pShoulderJoint p) (shoulder_angle p ik_poses) s1 = Inr s3"
        by simp
      from setJointState_plain_in_limits
        [OF i1 shoulder plain(2) ordered shoulder_angle_finite_or_nan cvp this]
      show ?thesis .
    qed
  qed
  with run l3 len show ?thesis by auto
qed

theorem limit_containment_witness:
  "valid_request demo_plugin [far_pose] [Fin 0, Fin 0, Fin 0, Fin (1 / 2)]
   \<and> m_pMountJoint demo_plugin \<in> set (m_joints demo_plugin)
   \<and> m_pShoulderJoint demo_plugin \<in> set (m_joints demo_plugin)
   \<and> m_pElbowJoint demo_plugin \<in> set (m_joints demo_plugin)
   \<and> getMimic (jointModel demo_plugin (m_pMountJoint demo_plugin)) = None
   \<and> getMimic (jointModel demo_plugin (m_pShoulderJoint demo_plugin)) = None
   \<and> limits_ordered demo_plugin
   \<and> all_in_limits demo_plugin [Fin 0, Fin 0, Fin 0, Fin (1 / 2)]
   \<and> (\<forall>j r. \<not> isnan (computeVariablePositions demo_plugin j (Fin r)))
   \<and> (\<exists>code sol.
         searchPositionIK demo_plugin [far_pose] [Fin 0, Fin 0, Fin 0, Fin (1 / 2)] [] None UNSET
           = Inr (True, code, sol)
         \<and> length sol = length (m_joints demo_plugin) \<and> all_in_limits demo_plugin sol)"
proof -
  have v: "valid_request demo_plugin [far_pose] [Fin 0, Fin 0, Fin 0, Fin (1 / 2)]"
    by (simp add: valid_request_def demo_plugin_def)
  have m: "m_pMountJoint demo_plugin \<in> set (m_joints demo_plugin)"
    and s: "m_pShoulderJoint demo_plugin \<in> set (m_joints demo_plugin)"
    and e: "m_pElbowJoint demo_plugin \<in> set (m_joints demo_plugin)"
    by (simp_all add: demo_plugin_def)
  have g: "getMimic (jointModel demo_plugin (m_pMountJoint demo_plugin)) = None"
    "getMimic (jointModel demo_plugin (m_pShoulderJoint demo_plugin)) = None"
    by (simp_all add: demo_defs)
  have ord: "limits_ordered demo_plugin"
    by (simp add: limits_ordered_def limits_of_def dle_def demo_defs)
  have seed: "all_in_limits demo_plugin [Fin 0, Fin 0, Fin 0, Fin (1 / 2)]"
    by (simp add: all_in_limits_def limits_of_def in_limits_def dle_def demo_defs
        less_Suc_eq nth_Cons')
  have cvp: "\<forall>j r. \<not> isnan (computeVariablePositions demo_plugin j (Fin r))"
    by (simp add: demo_plugin_def)
  from v m s e g ord seed cvp limit_containment [OF v m s e g ord seed cvp, of "[]" None UNSET]
  show ?thesis by blast
qed

section \<open>Mimic joints\<close>

text \<open>
  C6, as stated: for every mimic joint and every master state in range, the value
  written at the mimic joint's index is \<open>clamp(factor * masterState + offset, slaveMin,
  slaveMax)\<close>. It fails for the mimic joint that \<open>setJointState\<close> is invoked on: joint \<open>1\<close>
  (factor 1, offset 0, limits \<open>[-10, 10]\<close>) is set to 5, its master is clamped to 1,
  within its limits \<open>[-1, 1]\<close>, and the law would give 1 for joint \<open>1\<close>.
\<close>

theorem mimic_law_fails_for_driven_joint:
  "getMimic (jointModel mimic_plugin 1) = Some 0
   \<and> setJointState_plugin mimic_plugin 1 (Fin 5) [Fin 0, Fin 0, Fin 0]
       = Inr [Fin 1, Fin 5, Fin 3]
   \<and> in_limits ([Fin 1, Fin 5, Fin 3] ! slot mimic_plugin 0)
       (min_position (limits_of mimic_plugin 0)) (max_position (limits_of mimic_plugin 0))
   \<and> [Fin 1, Fin 5, Fin 3] ! slot mimic_plugin 1
       \<noteq> clamp (dadd (dmul (getMimicFactor (jointModel mimic_plugin 1))
                           ([Fin 1, Fin 5, Fin 3] ! slot mimic_plugin 0))
                     (getMimicOffset (jointModel mimic_plugin 1)))
             (min_position (limits_of mimic_plugin 1)) (max_position (limits_of mimic_plugin 1))"
  by (simp add: solver_defs demo_defs slot_def in_limits_def dle_def)

text \<open>
  C6, amended: for every master state, the loop over the master's mimic requests writes
  \<open>clamp(factor * masterState + offset, slaveMin, slaveMax)\<close> at the index of every mimic
  joint that is in \<open>m_joints\<close> and is not the joint \<open>setJointState\<close> was invoked on, with
  that mimic joint's factor, offset and limits.
\<close>

theorem mimic_affine_law:
  assumes "length (m_joints p) \<le> length states"
    and "s \<in> set requests" and "s \<noteq> pJoint" and "s \<in> set (m_joints p)"
  shows "\<exists>states'.
           updateMimics p pJoint masterState requests states = Inr states'
           \<and> states' ! slot p s =
               clamp (dadd (dmul (getMimicFactor (jointModel p s)) masterState)
                        (getMimicOffset (jointModel p s)))
                 (min_position (limits_of p s)) (max_position (limits_of p s))"
proof -
  from updateMimics_ok [OF assms(1)] obtain states' where
    run: "updateMimics p pJoint masterState requests states = Inr states'" by blast
  from updateMimics_value [OF run assms(2-4)] run show ?thesis
    by (simp add: dmul_commute)
qed

theorem mimic_affine_law_witness:
  "length (m_joints mimic_plugin) \<le> length [Fin 0, Fin 0, Fin 0]
   \<and> (2::nat) \<in> set [1, 2] \<and> (2::nat) \<noteq> 1 \<and> 2 \<in> set (m_joints mimic_plugin)
   \<and> (\<exists>states'.
         updateMimics mimic_plugin 1 (Fin 1) [1, 2] [Fin 0, Fin 0, Fin 0] = Inr states'
         \<and> states' ! 2 = Fin 3)"
proof -
  have a: "length (m_joints mimic_plugin) \<le> length [Fin 0, Fin 0, Fin 0]"
    and b: "(2::nat) \<in> set [1, 2]" and c: "(2::nat) \<noteq> 1"
    and d: "2 \<in> set (m_joints mimic_plugin)"
    by (simp_all add: demo_defs)
  have v: "clamp (dadd (dmul (getMimicFactor (jointModel mimic_plugin 2)) (Fin 1))
                        (getMimicOffset (jointModel mimic_plugin 2)))
                 (min_position (limits_of mimic_plugin 2)) (max_position (limits_of mimic_plugin 2))
           = Fin 3"
    by (simp add: clamp_def limits_of_def demo_defs)
  have sl: "slot mimic_plugin 2 = 2" by (simp add: slot_def demo_defs)
  from mimic_affine_law [OF a b c d, of "Fin 1"]
  have "\<exists>states'.
         updateMimics mimic_plugin 1 (Fin 1) [1, 2] [Fin 0, Fin 0, Fin 0] = Inr states'
         \<and> states' ! 2 = Fin 3"
    unfolding v sl by simp
  with a b c d show ?thesis by blast
qed



text \<open>
  C7 asks that every joint the solve writes, the joints driven to a limit by the reach
  clamping included, has its mimic relation propagated. On the chain whose elbow mimics
  the wrist, a target out of reach makes \<open>searchPositionIK\<close> write the elbow's
  \<open>max_position\<close> through \<open>setJointMaxState\<close>, and the wrist's slot keeps the seed's \<open>0\<close>;
  \<open>setJointState\<close> on the same joint with the same value sets the wrist's slot to \<open>1\<close>.
\<close>

theorem limit_write_skips_mimic:
  "valid_request elbow_mimic_plugin [far_pose] [Fin 0, Fin 0, Fin 0, Fin 0]
   \<and> getMimic (jointModel elbow_mimic_plugin (m_pElbowJoint elbow_mimic_plugin))
       = Some (m_pWristJoint elbow_mimic_plugin)
   \<and> searchPositionIK elbow_mimic_plugin [far_pose] [Fin 0, Fin 0, Fin 0, Fin 0] [] None UNSET
       = Inr (True, SUCCESS, [Fin 0, Fin 1, Fin 1, Fin 0])
   \<and> setJointState elbow_mimic_plugin (m_pElbowJoint elbow_mimic_plugin) (Fin 1)
        [Fin 0, Fin 1, Fin 0, Fin 0]
       = Inr [Fin 0, Fin 1, Fin 1, Fin 1]"
  by (simp add: solver_defs demo_defs valid_request_def)

theorem limit_write_skips_mimic_witness:
  "\<exists>code sol.
     searchPositionIK elbow_mimic_plugin [far_pose] [Fin 0, Fin 0, Fin 0, Fin 0] [] None UNSET
       = Inr (True, code, sol)
     \<and> sol ! slot elbow_mimic_plugin (m_pElbowJoint elbow_mimic_plugin)
         = max_position (limits_of elbow_mimic_plugin (m_pElbowJoint elbow_mimic_plugin))
     \<and> sol ! slot elbow_mimic_plugin (m_pWristJoint elbow_mimic_plugin) = Fin 0"
  using limit_write_skips_mimic
  by (simp add: slot_def limits_of_def demo_defs)

end
